theory Spec2Isabelle
  imports Complex_Main "HOL-Library.Word"
begin

section \<open>Image analysis (utils/colorAnalysis.ts)\<close>

text \<open>
  JavaScript numbers are modelled as rationals: every quantity of \<open>analyzeImage\<close> that
  the results below depend on (pixel counts, the scaled dimensions of the inputs
  evaluated, the threshold) is compared far away from any rounding boundary of an IEEE
  double. A channel of the \<open>Uint8ClampedArray\<close> is an 8-bit word, and the array, whose
  length is always a multiple of four, is a list of RGBA pixels.
\<close>

datatype js_error = Error (err_name: string) (message: string)

datatype background = dark | light | checkerboard

record ImageAnalysisResult =
  hasTransparency :: bool
  isDark :: bool
  suggestedBackground :: background
  averageLuminance :: rat

datatype pixel = RGBA (red: "8 word") (green: "8 word") (blue: "8 word") (alpha: "8 word")

text \<open>
  What the browser hands to \<open>analyzeImage\<close>: whether the image loaded (\<open>img.onload\<close> with
  \<open>img.width\<close> and \<open>img.height\<close>, or \<open>img.onerror\<close>), whether \<open>getContext('2d')\<close> returned
  a context, and what \<open>drawImage\<close> followed by \<open>getImageData\<close> produced inside the
  \<open>try\<close> block: the pixels, or the exception thrown.
\<close>

record browser_image =
  img :: "js_error + nat \<times> nat"
  ctx :: bool
  imageData :: "js_error + pixel list"

definition MAX_SIZE :: rat where
  "MAX_SIZE = 100"

text \<open>
  Lines 30-37. \<open>MAX_SIZE / 0\<close> is \<open>Infinity\<close> in JavaScript and \<open>Math.min\<close> then picks
  the other ratio; in HOL \<open>x / 0 = 0\<close>, so the zero cases are written out (both
  dimensions cannot be zero inside the branch, one of them exceeds \<open>MAX_SIZE\<close>).
\<close>

definition scale_ratio :: "nat \<Rightarrow> nat \<Rightarrow> rat" where
  "scale_ratio w h =
     (if w = 0 then MAX_SIZE / of_nat h
      else if h = 0 then MAX_SIZE / of_nat w
      else min (MAX_SIZE / of_nat w) (MAX_SIZE / of_nat h))"

definition scaled_size :: "nat \<Rightarrow> nat \<Rightarrow> rat \<times> rat" where
  "scaled_size w h =
     (if of_nat w > MAX_SIZE \<or> of_nat h > MAX_SIZE
      then (of_nat w * scale_ratio w h, of_nat h * scale_ratio w h)
      else (of_nat w, of_nat h))"

text \<open>The accumulators of the pixel loop, lines 46-65.\<close>

record pixel_sums =
  totalLuminance :: rat
  opaquePixelCount :: nat
  transparentPixelCount :: nat

definition luminance :: "pixel \<Rightarrow> rat" where
  "luminance p =
     299 / 1000 * of_nat (unat (red p)) + 587 / 1000 * of_nat (unat (green p))
       + 114 / 1000 * of_nat (unat (blue p))"

definition count_pixel :: "pixel \<Rightarrow> pixel_sums \<Rightarrow> pixel_sums" where
  "count_pixel p s =
     (if alpha p < 10
      then s\<lparr>transparentPixelCount := transparentPixelCount s + 1\<rparr>
      else s\<lparr>totalLuminance := totalLuminance s + luminance p,
             opaquePixelCount := opaquePixelCount s + 1\<rparr>)"

fun scan_pixels :: "pixel list \<Rightarrow> pixel_sums \<Rightarrow> pixel_sums" where
  "scan_pixels [] s = s"
| "scan_pixels (p # ps) s = scan_pixels ps (count_pixel p s)"

definition zero_sums :: pixel_sums where
  "zero_sums = \<lparr>totalLuminance = 0, opaquePixelCount = 0, transparentPixelCount = 0\<rparr>"

text \<open>
  Lines 70-73: the divisor of the only division of the classification, when the division
  statement is executed at all.
\<close>

definition luminance_divisor :: "pixel_sums \<Rightarrow> nat option" where
  "luminance_divisor s = (if opaquePixelCount s > 0 then Some (opaquePixelCount s) else None)"

definition average_of :: "pixel_sums \<Rightarrow> rat" where
  "average_of s =
     (case luminance_divisor s of
        None \<Rightarrow> 0
      | Some d \<Rightarrow> totalLuminance s / of_nat d)"

text \<open>Lines 75-92.\<close>

definition suggest :: "bool \<Rightarrow> bool \<Rightarrow> background" where
  "suggest transparent is_dark =
     (if transparent then (if is_dark then light else dark) else checkerboard)"

text \<open>Lines 67-99, from the finished pixel loop to \<open>resolve\<close>.\<close>

definition classify :: "rat \<Rightarrow> rat \<Rightarrow> pixel_sums \<Rightarrow> ImageAnalysisResult" where
  "classify width height s =
     (let totalPixels = width * height;
          transparent = (of_nat (transparentPixelCount s) > totalPixels * (5 / 100));
          avg = average_of s;
          is_dark = (avg < 128)
      in \<lparr>hasTransparency = transparent, isDark = is_dark,
          suggestedBackground = suggest transparent is_dark, averageLuminance = avg\<rparr>)"

definition analyzeImage :: "browser_image \<Rightarrow> js_error + ImageAnalysisResult" where
  "analyzeImage b =
     (case img b of
        Inl e \<Rightarrow> Inl e
      | Inr (w, h) \<Rightarrow>
          if \<not> ctx b then Inl (Error ''Error'' ''Could not get canvas context'')
          else (case imageData b of
                  Inl e \<Rightarrow> Inl e
                | Inr data \<Rightarrow>
                    Inr (classify (fst (scaled_size w h)) (snd (scaled_size w h))
                           (scan_pixels data zero_sums))))"

text \<open>
  The canvas behind \<open>imageData\<close>: assigning a fractional number to \<open>canvas.width\<close> or
  passing one to \<open>getImageData\<close> converts it to an integer by truncation, so the raster
  read back has \<open>\<lfloor>width\<rfloor> * \<lfloor>height\<rfloor>\<close> pixels, and \<open>getImageData\<close> throws on an
  empty rectangle.
\<close>

definition canvas_pixels :: "nat \<Rightarrow> nat \<Rightarrow> nat" where
  "canvas_pixels w h =
     nat \<lfloor>fst (scaled_size w h)\<rfloor> * nat \<lfloor>snd (scaled_size w h)\<rfloor>"

definition from_canvas :: "browser_image \<Rightarrow> bool" where
  "from_canvas b =
     (case img b of
        Inl e \<Rightarrow> True
      | Inr (w, h) \<Rightarrow>
          (case imageData b of
             Inl e \<Rightarrow> canvas_pixels w h = 0
           | Inr data \<Rightarrow> 0 < length data \<and> length data = canvas_pixels w h))"

section \<open>Directory navigation (hooks/useFileSystem.ts)\<close>

text \<open>
  Handles are opaque browser objects. A handle is modelled by the identity of the entry
  it refers to and the entry's name; two directories may carry the same name.
\<close>

datatype FileSystemFileHandle = FileHandle (file_key: nat) (file_handle_name: string)

datatype FileSystemDirectoryHandle = DirectoryHandle (dir_key: nat) (dir_name: string)

datatype entry = FileEntry FileSystemFileHandle | DirectoryEntry FileSystemDirectoryHandle

text \<open>\<open>entry.name\<close>, whatever the kind of the entry.\<close>

fun entry_name :: "entry \<Rightarrow> string" where
  "entry_name (FileEntry fh) = file_handle_name fh"
| "entry_name (DirectoryEntry dh) = dir_name dh"

datatype file_type = image_type | other_type

record FileSystemFile =
  file_name :: string
  file_handle :: FileSystemFileHandle
  file_url :: "string option"
  file_type :: file_type

record FileSystemFolder =
  folder_name :: string
  folder_handle :: FileSystemDirectoryHandle

datatype permission = granted | denied | prompt

text \<open>
  The file-system capability the hook consumes: the two permission calls and the
  directory iterator of a handle (each may throw), and the collation of
  \<open>localeCompare(_, undefined, {numeric: true, sensitivity: 'base'})\<close>.
\<close>

record file_system =
  queryPermission :: "FileSystemDirectoryHandle \<Rightarrow> js_error + permission"
  requestPermission :: "FileSystemDirectoryHandle \<Rightarrow> js_error + permission"
  entries_of :: "FileSystemDirectoryHandle \<Rightarrow> js_error + entry list"
  localeCompare :: "string \<Rightarrow> string \<Rightarrow> int"

text \<open>
  The state of \<open>useFileSystem\<close>; the listing and the busy flag carry the names App.tsx
  gives them (\<open>hookFiles\<close>, \<open>hookFolders\<close>, \<open>hookLoading\<close>).
\<close>

record hook_state =
  currentDirectoryHandle :: "FileSystemDirectoryHandle option"
  directoryStack :: "FileSystemDirectoryHandle list"
  hookFiles :: "FileSystemFile list"
  hookFolders :: "FileSystemFolder list"
  hookLoading :: bool
  error :: "string option"

definition IMAGE_EXTENSIONS :: "string list" where
  "IMAGE_EXTENSIONS =
     [''png'', ''jpg'', ''jpeg'', ''webp'', ''svg'', ''gif'', ''avif'', ''bmp'']"

text \<open>
  \<open>name.split('.').pop()\<close>: the part after the last dot, the whole name when it has no
  dot. \<open>toLowerCase\<close> is modelled on ASCII letters, the only ones an extension of the
  list can come from.
\<close>

definition last_segment :: "string \<Rightarrow> string" where
  "last_segment name = rev (takeWhile (\<lambda>c. c \<noteq> CHR ''.'') (rev name))"

definition lower_char :: "char \<Rightarrow> char" where
  "lower_char c =
     (let n = (of_char c :: nat) in if 65 \<le> n \<and> n \<le> 90 then char_of (n + 32) else c)"

definition toLowerCase :: "string \<Rightarrow> string" where
  "toLowerCase s = map lower_char s"

definition is_image_name :: "string \<Rightarrow> bool" where
  "is_image_name name =
     (let ext = toLowerCase (last_segment name)
      in ext \<noteq> [] \<and> ext \<in> set IMAGE_EXTENSIONS)"

text \<open>\<open>Array.prototype.sort\<close> is stable; so is this insertion sort.\<close>

fun insert_sorted :: "('a \<Rightarrow> 'a \<Rightarrow> int) \<Rightarrow> 'a \<Rightarrow> 'a list \<Rightarrow> 'a list" where
  "insert_sorted cmp x [] = [x]"
| "insert_sorted cmp x (y # ys) =
     (if cmp x y < 0 then x # y # ys else y # insert_sorted cmp x ys)"

definition js_sort :: "('a \<Rightarrow> 'a \<Rightarrow> int) \<Rightarrow> 'a list \<Rightarrow> 'a list" where
  "js_sort cmp xs = foldl (\<lambda>acc x. insert_sorted cmp x acc) [] xs"

text \<open>Lines 263-270 of the hook: the permission check.\<close>

definition verify_permission :: "file_system \<Rightarrow> FileSystemDirectoryHandle \<Rightarrow> js_error + unit" where
  "verify_permission fs h =
     (case queryPermission fs h of
        Inl e \<Rightarrow> Inl e
      | Inr p \<Rightarrow>
          if p = granted then Inr ()
          else (case requestPermission fs h of
                  Inl e \<Rightarrow> Inl e
                | Inr r \<Rightarrow>
                    if r = granted then Inr () else Inl (Error ''Error'' ''Permission denied'')))"

text \<open>Lines 272-292: the non-recursive scan into \<open>newFiles\<close> and \<open>newFolders\<close>.\<close>

fun scan_entries ::
  "entry list \<Rightarrow> FileSystemFile list \<times> FileSystemFolder list
     \<Rightarrow> FileSystemFile list \<times> FileSystemFolder list" where
  "scan_entries [] acc = acc"
| "scan_entries (FileEntry fh # es) (newFiles, newFolders) =
     scan_entries es
       (if is_image_name (file_handle_name fh)
        then (newFiles @ [\<lparr>file_name = file_handle_name fh, file_handle = fh,
                           file_url = None, file_type = image_type\<rparr>], newFolders)
        else (newFiles, newFolders))"
| "scan_entries (DirectoryEntry dh # es) (newFiles, newFolders) =
     scan_entries es
       (newFiles, newFolders @ [\<lparr>folder_name = dir_name dh, folder_handle = dh\<rparr>])"

text \<open>Lines 262-296: the body of the \<open>try\<close> block up to the sorted listing.\<close>

definition read_directory ::
  "file_system \<Rightarrow> FileSystemDirectoryHandle
     \<Rightarrow> js_error + FileSystemFile list \<times> FileSystemFolder list" where
  "read_directory fs h =
     (case verify_permission fs h of
        Inl e \<Rightarrow> Inl e
      | Inr _ \<Rightarrow>
          (case entries_of fs h of
             Inl e \<Rightarrow> Inl e
           | Inr es \<Rightarrow>
               (let (newFiles, newFolders) = scan_entries es ([], [])
                in Inr (js_sort (\<lambda>a b. localeCompare fs (file_name a) (file_name b)) newFiles,
                        js_sort (\<lambda>a b. localeCompare fs (folder_name a) (folder_name b))
                          newFolders))))"

definition loadFilesFromDirectory ::
  "file_system \<Rightarrow> FileSystemDirectoryHandle \<Rightarrow> hook_state \<Rightarrow> hook_state" where
  "loadFilesFromDirectory fs h s =
     (case read_directory fs h of
        Inr (newFiles, newFolders) \<Rightarrow>
          s\<lparr>error := None, hookFiles := newFiles, hookFolders := newFolders,
            currentDirectoryHandle := Some h, hookLoading := False\<rparr>
      | Inl e \<Rightarrow>
          s\<lparr>error := Some (if message e = [] then ''Failed to read directory'' else message e),
            hookLoading := False\<rparr>)"

text \<open>
  \<open>openDirectory\<close> returns the picked handle (or null) next to the new state;
  \<open>picked\<close> is what \<open>showDirectoryPicker\<close> resolved to or threw.
\<close>

definition openDirectory ::
  "js_error + FileSystemDirectoryHandle \<Rightarrow> file_system \<Rightarrow> hook_state
     \<Rightarrow> FileSystemDirectoryHandle option \<times> hook_state" where
  "openDirectory picked fs s =
     (case picked of
        Inr h \<Rightarrow> (Some h, loadFilesFromDirectory fs h (s\<lparr>directoryStack := []\<rparr>))
      | Inl e \<Rightarrow>
          (None, if err_name e = ''AbortError'' then s
                 else s\<lparr>error := Some ''Failed to open directory''\<rparr>))"

definition openDirectoryWithHandle ::
  "file_system \<Rightarrow> FileSystemDirectoryHandle \<Rightarrow> hook_state \<Rightarrow> hook_state" where
  "openDirectoryWithHandle fs h s = loadFilesFromDirectory fs h (s\<lparr>directoryStack := []\<rparr>)"

definition navigateToDirectory ::
  "file_system \<Rightarrow> FileSystemFolder \<Rightarrow> bool \<Rightarrow> hook_state \<Rightarrow> hook_state" where
  "navigateToDirectory fs folder resetStack s =
     loadFilesFromDirectory fs (folder_handle folder)
       (if resetStack then s\<lparr>directoryStack := []\<rparr>
        else (case currentDirectoryHandle s of
                Some cur \<Rightarrow> s\<lparr>directoryStack := directoryStack s @ [cur]\<rparr>
              | None \<Rightarrow> s))"

definition navigateUp :: "file_system \<Rightarrow> hook_state \<Rightarrow> hook_state" where
  "navigateUp fs s =
     (if length (directoryStack s) = 0 then s
      else (let parent = last (directoryStack s);
                newStack = butlast (directoryStack s)
            in loadFilesFromDirectory fs parent (s\<lparr>directoryStack := newStack\<rparr>)))"

definition canNavigateUp :: "hook_state \<Rightarrow> bool" where
  "canNavigateUp s = (length (directoryStack s) > 0)"

definition path :: "hook_state \<Rightarrow> FileSystemDirectoryHandle list" where
  "path s =
     directoryStack s @ (case currentDirectoryHandle s of None \<Rightarrow> [] | Some h \<Rightarrow> [h])"

section \<open>Favorites store (store/useAppStore.ts)\<close>

record FavoriteDirectory =
  fav_name :: string
  fav_handle :: FileSystemDirectoryHandle
  addedAt :: int

text \<open>
  The store state under the names App.tsx reads it by; \<open>console\<close> collects the messages
  of \<open>console.error\<close>, oldest first.
\<close>

record AppState =
  storeCurrentDirectoryHandle :: "FileSystemDirectoryHandle option"
  storeFiles :: "FileSystemFile list"
  favoriteDirectories :: "FavoriteDirectory list"
  storeLoading :: bool
  console :: "string list"

definition FAVORITES_KEY :: string where
  "FAVORITES_KEY = ''favorite_directories''"

text \<open>
  The storage backend: \<open>idbSet key value\<close> resolves (\<open>Inr ()\<close>) or rejects with an error.
  A store action returns how its promise settles together with the new state.
\<close>

type_synonym idb_set = "string \<Rightarrow> FavoriteDirectory list \<Rightarrow> js_error + unit"

text \<open>\<open>Array.prototype.findIndex\<close>: the first index satisfying the predicate, or \<open>-1\<close>.\<close>

fun findIndex :: "('a \<Rightarrow> bool) \<Rightarrow> 'a list \<Rightarrow> int" where
  "findIndex P [] = - 1"
| "findIndex P (x # xs) =
     (if P x then 0 else (let i = findIndex P xs in if i < 0 then - 1 else i + 1))"

definition setCurrentDirectory ::
  "FileSystemDirectoryHandle \<Rightarrow> FileSystemFile list \<Rightarrow> AppState \<Rightarrow> AppState" where
  "setCurrentDirectory h fls st =
     st\<lparr>storeCurrentDirectoryHandle := Some h, storeFiles := fls\<rparr>"

definition newest_first :: "FavoriteDirectory \<Rightarrow> FavoriteDirectory \<Rightarrow> int" where
  "newest_first x y = addedAt y - addedAt x"

definition addFavoriteDirectory ::
  "int \<Rightarrow> idb_set \<Rightarrow> FileSystemDirectoryHandle \<Rightarrow> AppState \<Rightarrow> (js_error + unit) \<times> AppState" where
  "addFavoriteDirectory now idbSet h st =
     (let favs = favoriteDirectories st;
          existingIndex = findIndex (\<lambda>d. fav_name d = dir_name h) favs;
          newFavorites =
            js_sort newest_first
              (if existingIndex \<ge> 0
               then favs[nat existingIndex := (favs ! nat existingIndex)\<lparr>addedAt := now\<rparr>]
               else favs @ [\<lparr>fav_name = dir_name h, fav_handle = h, addedAt = now\<rparr>]);
          st' = st\<lparr>favoriteDirectories := newFavorites\<rparr>
      in case idbSet FAVORITES_KEY newFavorites of
           Inr _ \<Rightarrow> (Inr (), st')
         | Inl err \<Rightarrow>
             (Inr (), st'\<lparr>console := console st' @ [''Failed to save favorite directories'']\<rparr>))"

definition toggleFavorite ::
  "int \<Rightarrow> idb_set \<Rightarrow> FileSystemDirectoryHandle \<Rightarrow> AppState \<Rightarrow> (js_error + unit) \<times> AppState" where
  "toggleFavorite now idbSet h st =
     (let favs = favoriteDirectories st;
          existingIndex = findIndex (\<lambda>d. fav_name d = dir_name h) favs;
          newFavorites =
            js_sort newest_first
              (if existingIndex \<ge> 0
               then filter (\<lambda>d. fav_name d \<noteq> dir_name h) favs
               else favs @ [\<lparr>fav_name = dir_name h, fav_handle = h, addedAt = now\<rparr>]);
          st' = st\<lparr>favoriteDirectories := newFavorites\<rparr>
      in case idbSet FAVORITES_KEY newFavorites of
           Inr _ \<Rightarrow> (Inr (), st')
         | Inl err \<Rightarrow>
             (Inr (), st'\<lparr>console := console st' @ [''Failed to save favorite directories'']\<rparr>))"

text \<open>Lines 219-224: the write is awaited outside any \<open>try\<close>, so its rejection is the action's.\<close>

definition removeFavoriteDirectory ::
  "idb_set \<Rightarrow> string \<Rightarrow> AppState \<Rightarrow> (js_error + unit) \<times> AppState" where
  "removeFavoriteDirectory idbSet name st =
     (let newFavorites = filter (\<lambda>d. fav_name d \<noteq> name) (favoriteDirectories st);
          st' = st\<lparr>favoriteDirectories := newFavorites\<rparr>
      in case idbSet FAVORITES_KEY newFavorites of
           Inr _ \<Rightarrow> (Inr (), st')
         | Inl err \<Rightarrow> (Inl err, st'))"

definition setLoading :: "bool \<Rightarrow> AppState \<Rightarrow> AppState" where
  "setLoading loading st = st\<lparr>storeLoading := loading\<rparr>"

section \<open>Selection and event handlers (App.tsx)\<close>

record App =
  hook :: hook_state
  store :: AppState
  selectedFile :: "FileSystemFile option"
  isPreviewOpen :: bool

text \<open>
  The two synchronising effects (lines 36-38 and 52-56), run after a change of the hook
  state: the store receives the busy flag, and the current handle with its files once a
  directory is open.
\<close>

definition sync_store :: "App \<Rightarrow> App" where
  "sync_store app =
     (let st = setLoading (hookLoading (hook app)) (store app)
      in app\<lparr>store :=
               (case currentDirectoryHandle (hook app) of
                  None \<Rightarrow> st
                | Some h \<Rightarrow> setCurrentDirectory h (hookFiles (hook app)) st)\<rparr>)"

definition handleOpenPicker ::
  "js_error + FileSystemDirectoryHandle \<Rightarrow> file_system \<Rightarrow> int \<Rightarrow> idb_set \<Rightarrow> App \<Rightarrow> App" where
  "handleOpenPicker picked fs now idbSet app =
     (let (handle, h') = openDirectory picked fs (hook app);
          app' = sync_store (app\<lparr>hook := h'\<rparr>)
      in case handle of
           None \<Rightarrow> app'
         | Some h \<Rightarrow> app'\<lparr>store := snd (addFavoriteDirectory now idbSet h (store app'))\<rparr>)"

definition handleOpenHistory :: "file_system \<Rightarrow> FileSystemDirectoryHandle \<Rightarrow> App \<Rightarrow> App" where
  "handleOpenHistory fs h app =
     sync_store (app\<lparr>hook := openDirectoryWithHandle fs h (hook app)\<rparr>)"

definition handleNext :: "App \<Rightarrow> App" where
  "handleNext app =
     (case selectedFile app of
        None \<Rightarrow> app
      | Some sel \<Rightarrow>
          (let files = storeFiles (store app);
               idx = findIndex (\<lambda>f. file_name f = file_name sel) files
           in if idx < int (length files) - 1
              then app\<lparr>selectedFile := Some (files ! nat (idx + 1))\<rparr>
              else app))"

definition handlePrev :: "App \<Rightarrow> App" where
  "handlePrev app =
     (case selectedFile app of
        None \<Rightarrow> app
      | Some sel \<Rightarrow>
          (let files = storeFiles (store app);
               idx = findIndex (\<lambda>f. file_name f = file_name sel) files
           in if idx > 0
              then app\<lparr>selectedFile := Some (files ! nat (idx - 1))\<rparr>
              else app))"

definition handleImageClick :: "FileSystemFile \<Rightarrow> App \<Rightarrow> App" where
  "handleImageClick file app =
     (if map_option file_name (selectedFile app) = Some (file_name file)
      then app\<lparr>isPreviewOpen := True\<rparr>
      else app\<lparr>selectedFile := Some file, isPreviewOpen := True\<rparr>)"

definition handleFolderClick :: "file_system \<Rightarrow> FileSystemFolder \<Rightarrow> App \<Rightarrow> App" where
  "handleFolderClick fs folder app =
     sync_store (app\<lparr>hook := navigateToDirectory fs folder False (hook app)\<rparr>)"

definition handleBreadcrumbNavigate ::
  "file_system \<Rightarrow> FileSystemDirectoryHandle \<Rightarrow> nat \<Rightarrow> App \<Rightarrow> App" where
  "handleBreadcrumbNavigate fs h index app =
     (if int index = int (length (path (hook app))) - 1 then app
      else sync_store
             (app\<lparr>hook := navigateToDirectory fs
                              \<lparr>folder_name = dir_name h, folder_handle = h\<rparr> True (hook app)\<rparr>))"

text \<open>The Back button, rendered only while \<open>canNavigateUp\<close> holds.\<close>

definition handleBack :: "file_system \<Rightarrow> App \<Rightarrow> App" where
  "handleBack fs app = sync_store (app\<lparr>hook := navigateUp fs (hook app)\<rparr>)"

definition onClose :: "App \<Rightarrow> App" where
  "onClose app = app\<lparr>isPreviewOpen := False, selectedFile := None\<rparr>"

section \<open>Concrete inputs\<close>

text \<open>
  A small directory tree: \<open>A\<close> holds \<open>a.png\<close>, \<open>notes.txt\<close> and the folder \<open>B\<close>;
  \<open>B\<close> holds its own \<open>a.png\<close> and the folder \<open>C\<close>; \<open>C\<close> is empty.
\<close>

definition dirA :: FileSystemDirectoryHandle where
  "dirA = DirectoryHandle 1 ''A''"

definition dirB :: FileSystemDirectoryHandle where
  "dirB = DirectoryHandle 2 ''B''"

definition dirC :: FileSystemDirectoryHandle where
  "dirC = DirectoryHandle 3 ''C''"

definition folderB :: FileSystemFolder where
  "folderB = \<lparr>folder_name = ''B'', folder_handle = dirB\<rparr>"

definition folderC :: FileSystemFolder where
  "folderC = \<lparr>folder_name = ''C'', folder_handle = dirC\<rparr>"

definition tree_entries :: "FileSystemDirectoryHandle \<Rightarrow> entry list" where
  "tree_entries h =
     (if dir_key h = 1
      then [FileEntry (FileHandle 11 ''notes.txt''), DirectoryEntry dirB,
            FileEntry (FileHandle 10 ''a.png'')]
      else if dir_key h = 2
      then [DirectoryEntry dirC, FileEntry (FileHandle 20 ''a.png'')]
      else [])"

fun compare_bytes :: "string \<Rightarrow> string \<Rightarrow> int" where
  "compare_bytes [] [] = 0"
| "compare_bytes [] (y # ys) = - 1"
| "compare_bytes (x # xs) [] = 1"
| "compare_bytes (x # xs) (y # ys) =
     (if (of_char x :: nat) < of_char y then - 1
      else if (of_char y :: nat) < of_char x then 1
      else compare_bytes xs ys)"

text \<open>Every directory readable.\<close>

definition open_fs :: file_system where
  "open_fs =
     \<lparr>queryPermission = (\<lambda>h. Inr granted), requestPermission = (\<lambda>h. Inr granted),
      entries_of = (\<lambda>h. Inr (tree_entries h)), localeCompare = compare_bytes\<rparr>"

text \<open>The same tree with every permission request declined.\<close>

definition locked_fs :: file_system where
  "locked_fs =
     \<lparr>queryPermission = (\<lambda>h. Inr prompt), requestPermission = (\<lambda>h. Inr denied),
      entries_of = (\<lambda>h. Inr (tree_entries h)), localeCompare = compare_bytes\<rparr>"

definition fileA :: FileSystemFile where
  "fileA = \<lparr>file_name = ''a.png'', file_handle = FileHandle 10 ''a.png'',
            file_url = None, file_type = image_type\<rparr>"

definition fileB :: FileSystemFile where
  "fileB = \<lparr>file_name = ''a.png'', file_handle = FileHandle 20 ''a.png'',
            file_url = None, file_type = image_type\<rparr>"

definition fileZ :: FileSystemFile where
  "fileZ = \<lparr>file_name = ''z.gif'', file_handle = FileHandle 12 ''z.gif'',
            file_url = None, file_type = image_type\<rparr>"

definition hook0 :: hook_state where
  "hook0 =
     \<lparr>currentDirectoryHandle = None, directoryStack = [], hookFiles = [], hookFolders = [],
      hookLoading = False, error = None\<rparr>"

text \<open>The hook with \<open>A\<close> open as root, with \<open>B\<close> entered from \<open>A\<close>, and with \<open>C\<close> below.\<close>

definition hook_at_A :: hook_state where
  "hook_at_A =
     \<lparr>currentDirectoryHandle = Some dirA, directoryStack = [], hookFiles = [fileA],
      hookFolders = [folderB], hookLoading = False, error = None\<rparr>"

definition hook_at_C :: hook_state where
  "hook_at_C =
     \<lparr>currentDirectoryHandle = Some dirC, directoryStack = [dirA, dirB], hookFiles = [],
      hookFolders = [], hookLoading = False, error = None\<rparr>"

definition store0 :: AppState where
  "store0 =
     \<lparr>storeCurrentDirectoryHandle = None, storeFiles = [], favoriteDirectories = [],
      storeLoading = False, console = []\<rparr>"

definition store_with_A :: AppState where
  "store_with_A =
     store0\<lparr>favoriteDirectories := [\<lparr>fav_name = ''A'', fav_handle = dirA, addedAt = 1\<rparr>]\<rparr>"

text \<open>
  The application before anything is opened; with \<open>A\<close> open, its image selected and
  shown in the preview; and down in \<open>C\<close> with nothing selected.
\<close>

definition app0 :: App where
  "app0 = \<lparr>hook = hook0, store = store0, selectedFile = None, isPreviewOpen = False\<rparr>"

definition app_at_C :: App where
  "app_at_C =
     \<lparr>hook = hook_at_C,
      store = store0\<lparr>storeCurrentDirectoryHandle := Some dirC\<rparr>,
      selectedFile = None, isPreviewOpen = False\<rparr>"

definition app_at_A :: App where
  "app_at_A =
     \<lparr>hook = hook_at_A,
      store = store0\<lparr>storeCurrentDirectoryHandle := Some dirA, storeFiles := [fileA]\<rparr>,
      selectedFile = Some fileA, isPreviewOpen = True\<rparr>"

text \<open>A listing of two files with the first, respectively a file not listed, selected.\<close>

definition app_two_files :: App where
  "app_two_files =
     \<lparr>hook = hook_at_A\<lparr>hookFiles := [fileA, fileZ]\<rparr>,
      store = store0\<lparr>storeCurrentDirectoryHandle := Some dirA, storeFiles := [fileA, fileZ]\<rparr>,
      selectedFile = Some fileA, isPreviewOpen = True\<rparr>"

definition app_stale :: App where
  "app_stale =
     \<lparr>hook = hook_at_A,
      store = store0\<lparr>storeCurrentDirectoryHandle := Some dirA, storeFiles := [fileA]\<rparr>,
      selectedFile = Some fileZ, isPreviewOpen = True\<rparr>"

text \<open>A storage backend whose every write fails.\<close>

definition failing_idbSet :: idb_set where
  "failing_idbSet key value = Inl (Error ''QuotaExceededError'' ''quota exceeded'')"

text \<open>
  A 200 x 3 image, drawn on the 100 x 1 canvas it is scaled to: seven fully transparent
  pixels and 93 opaque white ones. A fully transparent 2 x 1 image.
\<close>

definition px_clear :: pixel where
  "px_clear = RGBA 0 0 0 0"

definition px_white :: pixel where
  "px_white = RGBA 255 255 255 255"

definition strip_pixels :: "pixel list" where
  "strip_pixels = replicate 7 px_clear @ replicate 93 px_white"

definition strip_image :: browser_image where
  "strip_image = \<lparr>img = Inr (200, 3), ctx = True, imageData = Inr strip_pixels\<rparr>"

definition clear_image :: browser_image where
  "clear_image = \<lparr>img = Inr (2, 1), ctx = True, imageData = Inr [px_clear, px_clear]\<rparr>"

section \<open>The concrete inputs are states the program reaches\<close>

lemma is_image_examples:
  "is_image_name ''a.png''" "\<not> is_image_name ''notes.txt''"
  by code_simp+

lemma read_A: "read_directory open_fs dirA = Inr ([fileA], [folderB])"
  by (simp add: read_directory_def verify_permission_def open_fs_def dirA_def tree_entries_def
      is_image_examples js_sort_def fileA_def folderB_def dirB_def)

lemma read_B: "read_directory open_fs dirB = Inr ([fileB], [folderC])"
  by (simp add: read_directory_def verify_permission_def open_fs_def dirB_def tree_entries_def
      is_image_examples js_sort_def fileB_def folderC_def dirC_def)

lemma read_C: "read_directory open_fs dirC = Inr ([], [])"
  by (simp add: read_directory_def verify_permission_def open_fs_def dirC_def tree_entries_def
      js_sort_def)

lemma read_locked: "read_directory locked_fs h = Inl (Error ''Error'' ''Permission denied'')"
  by (simp add: read_directory_def verify_permission_def locked_fs_def)

lemma load_ok:
  "read_directory fs h = Inr (fl, fo) \<Longrightarrow>
   loadFilesFromDirectory fs h s =
     s\<lparr>error := None, hookFiles := fl, hookFolders := fo,
       currentDirectoryHandle := Some h, hookLoading := False\<rparr>"
  by (simp add: loadFilesFromDirectory_def)

lemma open_A: "openDirectoryWithHandle open_fs dirA hook0 = hook_at_A"
  by (simp add: openDirectoryWithHandle_def load_ok [OF read_A] hook0_def hook_at_A_def)

lemma reach_C:
  "navigateToDirectory open_fs folderC False
     (navigateToDirectory open_fs folderB False hook_at_A) = hook_at_C"
  by (simp add: navigateToDirectory_def folderB_def folderC_def load_ok [OF read_B]
      load_ok [OF read_C] hook_at_A_def hook_at_C_def)

lemma reach_app_at_A:
  "handleImageClick fileA (handleOpenHistory open_fs dirA app0) = app_at_A"
  by (simp add: handleImageClick_def handleOpenHistory_def open_A sync_store_def setLoading_def
      setCurrentDirectory_def app0_def app_at_A_def hook_at_A_def store0_def)

lemma openDirectory_picked:
  "openDirectory (Inr h) fs s = (Some h, openDirectoryWithHandle fs h s)"
  by (simp add: openDirectory_def openDirectoryWithHandle_def)

section \<open>The image classifier\<close>

lemma scan_transparent:
  "transparentPixelCount (scan_pixels ps s) =
     transparentPixelCount s + length (filter (\<lambda>p. alpha p < 10) ps)"
  by (induction ps arbitrary: s) (simp_all add: count_pixel_def)

lemma scan_opaque:
  "opaquePixelCount (scan_pixels ps s) =
     opaquePixelCount s + length (filter (\<lambda>p. \<not> alpha p < 10) ps)"
  by (induction ps arbitrary: s) (simp_all add: count_pixel_def)

lemma scan_all_transparent:
  "list_all (\<lambda>p. alpha p < 10) ps \<Longrightarrow>
     scan_pixels ps s = s\<lparr>transparentPixelCount := transparentPixelCount s + length ps\<rparr>"
  by (induction ps arbitrary: s) (simp_all add: count_pixel_def)

lemma analyze_clear_image:
  "analyzeImage clear_image =
     Inr \<lparr>hasTransparency = True, isDark = True, suggestedBackground = light,
          averageLuminance = 0\<rparr>"
  by (simp add: analyzeImage_def clear_image_def classify_def Let_def px_clear_def
        zero_sums_def count_pixel_def average_of_def luminance_divisor_def suggest_def
        scaled_size_def MAX_SIZE_def)

lemma floor_three_halves: "\<lfloor>3 / 2 :: rat\<rfloor> = 1"
  by (simp add: floor_eq_iff)

lemma scaled_strip: "scaled_size 200 3 = (100, 3 / 2)"
  by (simp add: scaled_size_def scale_ratio_def MAX_SIZE_def)

lemma strip_counts:
  "length strip_pixels = 100" "length (filter (\<lambda>p. alpha p < 10) strip_pixels) = 7"
  by (simp_all add: strip_pixels_def px_clear_def px_white_def)

text \<open>
  Where the scaled width and height multiply to the number of pixels read back (both are
  whole numbers, in particular whenever the image is not downscaled), the flag is the
  strict five-percent test on the raster.
\<close>

lemma hasTransparency_whole_size:
  assumes "img b = Inr (w, h)" and "ctx b" and "imageData b = Inr data"
    and "of_nat (length data) = fst (scaled_size w h) * snd (scaled_size w h)"
  shows "map_sum id hasTransparency (analyzeImage b) =
           Inr (5 * length data < 100 * length (filter (\<lambda>p. alpha p < 10) data))"
proof -
  have "(rat_of_nat (length data) * (5 / 100) < rat_of_nat n) = (5 * length data < 100 * n)"
    for n
  proof -
    have "(rat_of_nat (length data) * (5 / 100) < rat_of_nat n)
            = (rat_of_nat (5 * length data) < rat_of_nat (100 * n))"
      by (simp add: field_simps)
    then show ?thesis by (simp only: of_nat_less_iff)
  qed
  with assms show ?thesis
    by (simp add: analyzeImage_def classify_def Let_def scan_transparent zero_sums_def)
qed

text \<open>
  Claim C4. \<open>hasTransparency\<close> is meant to hold exactly when the pixels with alpha below
  10 are strictly more than 5% of the pixels of the sampled raster. The code compares the
  count with 5% of \<open>width * height\<close>, the scaled dimensions before the canvas truncates
  them. A 200 x 3 image is scaled to 100 x 1.5 and drawn on a canvas of 100 x 1 pixels;
  with 7 of its 100 sampled pixels transparent (7%), the threshold is 5% of 150, that is
  7.5, and the flag is false.
\<close>

theorem fractional_size_threshold:
  "from_canvas strip_image
   \<and> imageData strip_image = Inr strip_pixels
   \<and> length strip_pixels = 100
   \<and> length (filter (\<lambda>p. alpha p < 10) strip_pixels) = 7
   \<and> map_sum id hasTransparency (analyzeImage strip_image) = Inr False"
  by (simp add: from_canvas_def analyzeImage_def strip_image_def canvas_pixels_def scaled_strip
      floor_three_halves classify_def Let_def scan_transparent zero_sums_def strip_counts)

text \<open>
  Claim C5. In every classification result the suggested background is \<open>checkerboard\<close>
  exactly when \<open>hasTransparency\<close> is false, \<open>light\<close> exactly when the image has
  transparency and is dark, and \<open>dark\<close> exactly when it has transparency and is not dark:
  the three cases are exhaustive and exclusive.
\<close>

theorem suggested_background_cases:
  assumes "analyzeImage b = Inr res"
  shows "(suggestedBackground res = checkerboard) = (\<not> hasTransparency res)
       \<and> (suggestedBackground res = light) = (hasTransparency res \<and> isDark res)
       \<and> (suggestedBackground res = dark) = (hasTransparency res \<and> \<not> isDark res)"
  using assms
  by (auto simp: analyzeImage_def classify_def suggest_def Let_def
      split: sum.splits prod.splits if_splits)

theorem suggested_background_cases_witness:
  "analyzeImage clear_image =
     Inr \<lparr>hasTransparency = True, isDark = True, suggestedBackground = light,
          averageLuminance = 0\<rparr>
   \<and> suggestedBackground
        \<lparr>hasTransparency = True, isDark = True, suggestedBackground = light,
         averageLuminance = 0\<rparr> = light"
proof -
  note h = analyze_clear_image
  from suggested_background_cases [OF h] h show ?thesis by simp
qed

text \<open>
  Claim C7. For an image whose raster has no opaque pixel (every alpha is below 10) the
  classification resolves with a result, not an error, and the result's
  \<open>averageLuminance\<close> is 0; the division by the opaque-pixel count is skipped there, and
  it is never executed with the divisor 0.
\<close>

theorem fully_transparent_average:
  assumes "img b = Inr (w, h)" and "ctx b" and "imageData b = Inr data"
    and "list_all (\<lambda>p. alpha p < 10) data"
  shows "(\<exists>res. analyzeImage b = Inr res \<and> averageLuminance res = 0)
       \<and> luminance_divisor (scan_pixels data zero_sums) = None
       \<and> luminance_divisor s \<noteq> Some 0"
  using assms
  by (simp add: analyzeImage_def classify_def Let_def average_of_def luminance_divisor_def
      zero_sums_def scan_all_transparent)

theorem fully_transparent_average_witness:
  "list_all (\<lambda>p. alpha p < 10) [px_clear, px_clear]
   \<and> map_sum id averageLuminance (analyzeImage clear_image) = Inr 0"
proof -
  have h: "list_all (\<lambda>p. alpha p < 10) [px_clear, px_clear]"
    by (simp add: px_clear_def)
  from fully_transparent_average [of clear_image 2 1 "[px_clear, px_clear]", OF _ _ _ h]
  have "\<exists>res. analyzeImage clear_image = Inr res \<and> averageLuminance res = 0"
    by (simp add: clear_image_def)
  with h show ?thesis by auto
qed

section \<open>The navigation engine\<close>

lemma load_stack: "directoryStack (loadFilesFromDirectory fs h s) = directoryStack s"
  by (simp add: loadFilesFromDirectory_def split: sum.split prod.split)

lemma load_failed:
  "read_directory fs h = Inl e \<Longrightarrow>
   currentDirectoryHandle (loadFilesFromDirectory fs h s) = currentDirectoryHandle s
   \<and> hookFiles (loadFilesFromDirectory fs h s) = hookFiles s
   \<and> hookFolders (loadFilesFromDirectory fs h s) = hookFolders s"
  by (simp add: loadFilesFromDirectory_def)

lemma sync_store_hook: "hook (sync_store app) = hook app"
  by (simp add: sync_store_def Let_def)

lemma sync_store_selection:
  "selectedFile (sync_store app) = selectedFile app"
  "isPreviewOpen (sync_store app) = isPreviewOpen app"
  by (simp_all add: sync_store_def Let_def)

text \<open>
  Claim C1. A navigation transition whose permission check or listing fails is meant to
  leave the handle, the listing and the ancestor stack as they were. Every transition
  writes the stack before it loads, and a failed load keeps only the handle and the
  listing: with \<open>A\<close> open as root and the permission for \<open>B\<close> declined, entering \<open>B\<close>
  leaves \<open>A\<close> current and on the stack; a failed \<open>up\<close> from \<open>C\<close> drops \<open>B\<close> from the
  stack; a failed re-open of \<open>A\<close> from \<open>C\<close> empties the stack.
\<close>

theorem failed_navigation_changes_stack:
  "read_directory locked_fs (folder_handle folderB) = Inl (Error ''Error'' ''Permission denied'')
   \<and> directoryStack hook_at_A = []
   \<and> navigateToDirectory locked_fs folderB False hook_at_A
       = hook_at_A\<lparr>directoryStack := [dirA], error := Some ''Permission denied''\<rparr>
   \<and> directoryStack hook_at_C = [dirA, dirB]
   \<and> navigateUp locked_fs hook_at_C
       = hook_at_C\<lparr>directoryStack := [dirA], error := Some ''Permission denied''\<rparr>
   \<and> openDirectoryWithHandle locked_fs dirA hook_at_C
       = hook_at_C\<lparr>directoryStack := [], error := Some ''Permission denied''\<rparr>"
  by (simp add: navigateToDirectory_def navigateUp_def openDirectoryWithHandle_def
      loadFilesFromDirectory_def read_locked hook_at_A_def hook_at_C_def)

text \<open>
  Claim C6. From \<open>openRoot(A)\<close>, entering \<open>B\<close>, entering \<open>C\<close> and going up twice, with
  every listing succeeding on an unchanged file system, ends in exactly the state
  \<open>openRoot(A)\<close> produced: \<open>A\<close> is current, the listing is the listing of \<open>A\<close>, and the
  ancestor stack is empty.
\<close>

theorem enter_enter_up_up_round_trip:
  assumes A: "read_directory fs a = Inr la"
    and B: "read_directory fs (folder_handle b) = Inr lb"
    and C: "read_directory fs (folder_handle c) = Inr lc"
  shows "navigateUp fs (navigateUp fs (navigateToDirectory fs c False
           (navigateToDirectory fs b False (openDirectoryWithHandle fs a s))))
         = openDirectoryWithHandle fs a s
       \<and> currentDirectoryHandle (openDirectoryWithHandle fs a s) = Some a
       \<and> (hookFiles (openDirectoryWithHandle fs a s),
          hookFolders (openDirectoryWithHandle fs a s)) = la
       \<and> directoryStack (openDirectoryWithHandle fs a s) = []"
proof -
  obtain fa ga where la: "la = (fa, ga)" by (cases la)
  obtain fb gb where lb: "lb = (fb, gb)" by (cases lb)
  obtain fc gc where lc: "lc = (fc, gc)" by (cases lc)
  show ?thesis
    using A B C unfolding la lb lc
    by (simp add: openDirectoryWithHandle_def navigateToDirectory_def navigateUp_def load_ok
        Let_def)
qed

theorem enter_enter_up_up_round_trip_witness:
  "read_directory open_fs dirA = Inr ([fileA], [folderB])
   \<and> navigateUp open_fs (navigateUp open_fs (navigateToDirectory open_fs folderC False
        (navigateToDirectory open_fs folderB False
           (openDirectoryWithHandle open_fs dirA hook_at_C))))
      = hook_at_A"
proof -
  have B: "read_directory open_fs (folder_handle folderB) = Inr ([fileB], [folderC])"
    by (simp add: folderB_def read_B)
  have C: "read_directory open_fs (folder_handle folderC) = Inr ([], [])"
    by (simp add: folderC_def read_C)
  have "openDirectoryWithHandle open_fs dirA hook_at_C = hook_at_A"
    by (simp add: openDirectoryWithHandle_def load_ok [OF read_A] hook_at_C_def hook_at_A_def)
  with enter_enter_up_up_round_trip [OF read_A B C, of hook_at_C] read_A
  show ?thesis by simp
qed

text \<open>
  Claim C8. A click on a breadcrumb segment other than the last one navigates with the
  stack reset, and afterwards the ancestor stack is empty, however deep the target was
  and whether or not its listing succeeded; the same holds for every call of
  \<open>navigateToDirectory\<close> with \<open>resetStack\<close> set.
\<close>

theorem breadcrumb_jump_empties_stack:
  assumes "int index \<noteq> int (length (path (hook app))) - 1"
  shows "directoryStack (hook (handleBreadcrumbNavigate fs h index app)) = []
       \<and> directoryStack (navigateToDirectory fs folder True s) = []"
  using assms
  by (simp add: handleBreadcrumbNavigate_def navigateToDirectory_def load_stack sync_store_hook)

theorem breadcrumb_jump_empties_stack_witness:
  "int 0 \<noteq> int (length (path (hook app_at_C))) - 1
   \<and> directoryStack (hook app_at_C) = [dirA, dirB]
   \<and> directoryStack (hook (handleBreadcrumbNavigate open_fs dirA 0 app_at_C)) = []"
proof -
  have h: "int 0 \<noteq> int (length (path (hook app_at_C))) - 1"
    by (simp add: app_at_C_def hook_at_C_def path_def)
  from breadcrumb_jump_empties_stack [OF h] h show ?thesis
    by (simp add: app_at_C_def hook_at_C_def)
qed

subsection \<open>Listings keep the names of a directory distinct\<close>

lemma insert_sorted_set: "set (insert_sorted cmp x ys) = insert x (set ys)"
  by (induction ys) auto

lemma insert_sorted_distinct:
  "distinct (map f (insert_sorted cmp x ys)) = (f x \<notin> f ` set ys \<and> distinct (map f ys))"
  by (induction ys) (auto simp: insert_sorted_set)

lemma foldl_insert_sorted_set:
  "set (foldl (\<lambda>acc x. insert_sorted cmp x acc) acc xs) = set acc \<union> set xs"
  by (induction xs arbitrary: acc) (simp_all add: insert_sorted_set)

lemma foldl_insert_sorted_distinct:
  "distinct (map f (foldl (\<lambda>acc x. insert_sorted cmp x acc) acc xs))
     = distinct (map f (acc @ xs))"
proof (induction xs arbitrary: acc)
  case Nil
  then show ?case by simp
next
  case (Cons x xs)
  have "distinct (map f (foldl (\<lambda>acc x. insert_sorted cmp x acc) (insert_sorted cmp x acc) xs))
          = distinct (map f (insert_sorted cmp x acc @ xs))"
    by (rule Cons.IH)
  also have "\<dots> = distinct (map f (acc @ x # xs))"
    by (auto simp: insert_sorted_set insert_sorted_distinct)
  finally show ?case by simp
qed

lemma js_sort_distinct: "distinct (map f (js_sort cmp xs)) = distinct (map f xs)"
  by (simp add: js_sort_def foldl_insert_sorted_distinct)

lemma js_sort_set: "set (js_sort cmp xs) = set xs"
  by (simp add: js_sort_def foldl_insert_sorted_set)

lemma scan_entries_distinct:
  "distinct (map file_name fl @ map entry_name es) \<Longrightarrow>
   distinct (map file_name (fst (scan_entries es (fl, fo))))"
proof (induction es "(fl, fo)" arbitrary: fl fo rule: scan_entries.induct)
  case 1
  then show ?case by simp
next
  case (2 fh es newFiles newFolders)
  then show ?case by auto
next
  case (3 dh es newFiles newFolders)
  then show ?case by auto
qed

text \<open>
  The entries of one directory have pairwise different names, and so have the files of
  the listing read from it.
\<close>

lemma listing_names_distinct:
  assumes "entries_of fs h = Inr es" and "distinct (map entry_name es)"
    and "read_directory fs h = Inr (fl, fo)"
  shows "distinct (map file_name fl)"
proof -
  obtain nf nd where sc: "scan_entries es ([], []) = (nf, nd)"
    by (cases "scan_entries es ([], [])")
  from scan_entries_distinct [of "[]" es "[]"] assms(2) sc
  have "distinct (map file_name nf)" by simp
  moreover from assms(1,3) sc
  have "fl = js_sort (\<lambda>a b. localeCompare fs (file_name a) (file_name b)) nf"
    by (auto simp: read_directory_def split: sum.splits)
  ultimately show ?thesis by (simp add: js_sort_distinct)
qed

section \<open>Selection\<close>

text \<open>
  Claim C2, as stated: a successful navigation clears the selection and closes the
  preview. It does not: with \<open>a.png\<close> of \<open>A\<close> selected and previewed, entering \<open>B\<close>
  succeeds, the listing becomes that of \<open>B\<close>, and the selection is still the file of
  \<open>A\<close> with the preview open, although \<open>B\<close> lists its own, different \<open>a.png\<close>.
\<close>

theorem selection_survives_navigation:
  "currentDirectoryHandle (hook (handleFolderClick open_fs folderB app_at_A)) = Some dirB
   \<and> storeFiles (store (handleFolderClick open_fs folderB app_at_A)) = [fileB]
   \<and> selectedFile (handleFolderClick open_fs folderB app_at_A) = Some fileA
   \<and> isPreviewOpen (handleFolderClick open_fs folderB app_at_A)
   \<and> file_handle fileA \<noteq> file_handle fileB"
  by (simp add: handleFolderClick_def navigateToDirectory_def loadFilesFromDirectory_def
      folderB_def read_B sync_store_def setLoading_def setCurrentDirectory_def app_at_A_def
      hook_at_A_def fileA_def fileB_def)

text \<open>
  Claim C2, amended: no navigation handler touches the selection or the preview. After a
  folder click, a breadcrumb click, Back, an open from history or an open from the picker,
  successful or not, \<open>selectedFile\<close> and \<open>isPreviewOpen\<close> are what they were before.
\<close>

theorem navigation_keeps_selection:
  "selectedFile (handleFolderClick fs folder app) = selectedFile app
   \<and> isPreviewOpen (handleFolderClick fs folder app) = isPreviewOpen app
   \<and> selectedFile (handleBreadcrumbNavigate fs h index app) = selectedFile app
   \<and> isPreviewOpen (handleBreadcrumbNavigate fs h index app) = isPreviewOpen app
   \<and> selectedFile (handleBack fs app) = selectedFile app
   \<and> isPreviewOpen (handleBack fs app) = isPreviewOpen app
   \<and> selectedFile (handleOpenHistory fs h app) = selectedFile app
   \<and> isPreviewOpen (handleOpenHistory fs h app) = isPreviewOpen app
   \<and> selectedFile (handleOpenPicker picked fs now idbSet app) = selectedFile app
   \<and> isPreviewOpen (handleOpenPicker picked fs now idbSet app) = isPreviewOpen app"
  by (simp add: handleFolderClick_def handleBreadcrumbNavigate_def handleBack_def
      handleOpenHistory_def handleOpenPicker_def sync_store_selection Let_def
      split: prod.split option.split)

lemma findIndex_none: "\<forall>x \<in> set xs. \<not> P x \<Longrightarrow> findIndex P xs = - 1"
  by (induction xs) (simp_all add: Let_def)

lemma findIndex_first:
  "i < length xs \<Longrightarrow> P (xs ! i) \<Longrightarrow> \<forall>j < i. \<not> P (xs ! j) \<Longrightarrow> findIndex P xs = int i"
proof (induction xs arbitrary: i)
  case Nil
  then show ?case by simp
next
  case (Cons x xs)
  show ?case
  proof (cases i)
    case 0
    with Cons.prems show ?thesis by simp
  next
    case (Suc k)
    with Cons.prems have "\<not> P x" by auto
    moreover from Suc Cons.prems have "findIndex P xs = int k"
      by (intro Cons.IH) auto
    ultimately show ?thesis using Suc by (simp add: Let_def)
  qed
qed

lemma findIndex_distinct:
  assumes "distinct (map f xs)" and "i < length xs"
  shows "findIndex (\<lambda>x. f x = f (xs ! i)) xs = int i"
proof (rule findIndex_first)
  show "i < length xs" by fact
  show "f (xs ! i) = f (xs ! i)" by simp
  show "\<forall>j<i. f (xs ! j) \<noteq> f (xs ! i)"
  proof (intro allI impI)
    fix j assume "j < i"
    with assms have "(map f xs ! j = map f xs ! i) = (j = i)"
      by (intro nth_eq_iff_index_eq) simp_all
    with \<open>j < i\<close> assms show "f (xs ! j) \<noteq> f (xs ! i)" by simp
  qed
qed

text \<open>
  Claim C9. With the selected file at position \<open>i\<close> of the current listing's files (file
  names within a listing are distinct, see \<open>listing_names_distinct\<close>), \<open>next\<close> selects the file at \<open>i + 1\<close> and \<open>prev\<close>
  the file at \<open>i - 1\<close>; at the last index \<open>next\<close>, and at index 0 \<open>prev\<close>, change nothing.
  Nothing but the selection is ever changed (the preview stays as it is), and the new
  selection is a file of the listing: no wrap-around, no position outside the listing.
\<close>

theorem next_prev_step:
  assumes sel: "selectedFile app = Some sel"
    and i: "i < length (storeFiles (store app))"
    and at: "file_name (storeFiles (store app) ! i) = file_name sel"
    and names: "distinct (map file_name (storeFiles (store app)))"
  shows "handleNext app =
           (if i + 1 < length (storeFiles (store app))
            then app\<lparr>selectedFile := Some (storeFiles (store app) ! (i + 1))\<rparr> else app)
       \<and> handlePrev app =
           (if 0 < i then app\<lparr>selectedFile := Some (storeFiles (store app) ! (i - 1))\<rparr>
            else app)"
proof -
  have idx: "findIndex (\<lambda>f. file_name f = file_name sel) (storeFiles (store app)) = int i"
    using findIndex_distinct [OF names i] at by simp
  have "nat (int i + 1) = i + 1" by simp
  moreover have "0 < i \<Longrightarrow> nat (int i - 1) = i - 1" by simp
  ultimately show ?thesis
    using sel idx by (auto simp: handleNext_def handlePrev_def Let_def)
qed

theorem next_prev_step_witness:
  "handleNext app_two_files = app_two_files\<lparr>selectedFile := Some fileZ\<rparr>
   \<and> handlePrev app_two_files = app_two_files"
proof -
  have "selectedFile app_two_files = Some fileA"
    and "0 < length (storeFiles (store app_two_files))"
    and "file_name (storeFiles (store app_two_files) ! 0) = file_name fileA"
    and "distinct (map file_name (storeFiles (store app_two_files)))"
    by (simp_all add: app_two_files_def fileA_def fileZ_def)
  from next_prev_step [OF this] show ?thesis
    by (simp add: app_two_files_def)
qed

text \<open>
  Claim C10. When the name of the selected file does not occur in the current listing,
  \<open>next\<close> selects the first file of the listing if there is one (and changes nothing on
  an empty listing), and \<open>prev\<close> changes nothing.
\<close>

theorem stale_selection_next_prev:
  assumes sel: "selectedFile app = Some sel"
    and stale: "file_name sel \<notin> file_name ` set (storeFiles (store app))"
  shows "handleNext app =
           (if storeFiles (store app) = [] then app
            else app\<lparr>selectedFile := Some (storeFiles (store app) ! 0)\<rparr>)
       \<and> handlePrev app = app"
proof -
  have "\<forall>f \<in> set (storeFiles (store app)). file_name f \<noteq> file_name sel"
    using stale by (metis imageI)
  then have idx: "findIndex (\<lambda>f. file_name f = file_name sel) (storeFiles (store app)) = - 1"
    by (rule findIndex_none)
  show ?thesis
    using sel idx
    by (cases "storeFiles (store app)") (simp_all add: handleNext_def handlePrev_def Let_def)
qed

theorem stale_selection_next_prev_witness:
  "handleNext app_stale = app_stale\<lparr>selectedFile := Some fileA\<rparr>
   \<and> handlePrev app_stale = app_stale"
proof -
  have "selectedFile app_stale = Some fileZ"
    and "file_name fileZ \<notin> file_name ` set (storeFiles (store app_stale))"
    by (simp_all add: app_stale_def fileA_def fileZ_def)
  from stale_selection_next_prev [OF this] show ?thesis
    by (simp add: app_stale_def)
qed

section \<open>Favorites\<close>

lemma findIndex_nonneg_iff: "(0 \<le> findIndex P xs) = (\<exists>x \<in> set xs. P x)"
  by (induction xs) (auto simp: Let_def)

lemma restamp_names:
  "map fav_name (favs[i := (favs ! i)\<lparr>addedAt := now\<rparr>]) = map fav_name favs"
  by (cases "i < length favs")
    (simp_all add: map_update list_update_same_conv list_update_beyond)

text \<open>An upsert adds the directory's name to the names of the list, whatever the backend does.\<close>

lemma add_favorite_names:
  "fav_name ` set (favoriteDirectories (snd (addFavoriteDirectory now idb h st)))
     = insert (dir_name h) (fav_name ` set (favoriteDirectories st))"
proof (cases "0 \<le> findIndex (\<lambda>d. fav_name d = dir_name h) (favoriteDirectories st)")
  case True
  then have "dir_name h \<in> fav_name ` set (favoriteDirectories st)"
    unfolding findIndex_nonneg_iff by (metis imageI)
  moreover have "fav_name ` set (favs[i := (favs ! i)\<lparr>addedAt := now\<rparr>]) = fav_name ` set favs"
    for favs i
    using restamp_names [of favs i now] by (metis set_map)
  ultimately show ?thesis
    using True
    by (auto simp: addFavoriteDirectory_def Let_def js_sort_set split: sum.split)
next
  case False
  then show ?thesis
    by (auto simp: addFavoriteDirectory_def Let_def js_sort_set split: sum.split)
qed

text \<open>
  Repeating an upsert keeps the set of names (the entry's timestamp is renewed), and
  repeating a removal keeps the list.
\<close>

lemma add_favorite_twice_names:
  "fav_name ` set (favoriteDirectories
      (snd (addFavoriteDirectory now' idb' h (snd (addFavoriteDirectory now idb h st)))))
   = fav_name ` set (favoriteDirectories (snd (addFavoriteDirectory now idb h st)))"
  by (simp add: add_favorite_names)

lemma add_favorite_never_rejects: "fst (addFavoriteDirectory now idb h st) = Inr ()"
  by (simp add: addFavoriteDirectory_def Let_def split: sum.split)

lemma remove_favorite_settles_as_write:
  "fst (removeFavoriteDirectory idb name st)
     = idb FAVORITES_KEY (filter (\<lambda>d. fav_name d \<noteq> name) (favoriteDirectories st))"
  by (simp add: removeFavoriteDirectory_def Let_def split: sum.split)

lemma remove_favorite_twice:
  "favoriteDirectories (snd (removeFavoriteDirectory idb' name
      (snd (removeFavoriteDirectory idb name st))))
   = favoriteDirectories (snd (removeFavoriteDirectory idb name st))"
  by (simp add: removeFavoriteDirectory_def Let_def split: sum.split)

text \<open>
  Claim C3. Both favorites actions are meant to tolerate a failing storage write: logged,
  not thrown, the in-memory update kept. \<open>addFavoriteDirectory\<close> does so.
  \<open>removeFavoriteDirectory\<close> awaits the write outside any \<open>try\<close>: with a backend whose
  write fails, removing \<open>A\<close> updates the list in memory, logs nothing, and its promise
  rejects with the storage error.
\<close>

theorem remove_favorite_storage_failure:
  "removeFavoriteDirectory failing_idbSet ''A'' store_with_A
     = (Inl (Error ''QuotaExceededError'' ''quota exceeded''), store0)
   \<and> console store0 = []
   \<and> fst (addFavoriteDirectory 2 failing_idbSet dirA store_with_A) = Inr ()
   \<and> console (snd (addFavoriteDirectory 2 failing_idbSet dirA store_with_A))
       = [''Failed to save favorite directories'']"
  by (simp add: removeFavoriteDirectory_def addFavoriteDirectory_def failing_idbSet_def
      store_with_A_def store0_def dirA_def Let_def js_sort_def)

end
